theory Spec2Isabelle
  imports Main
begin

section \<open>The status backend (backend/app.py)\<close>

text \<open>
  The module is twelve lines over Flask and Flask-Cors:
  \<^verbatim>\<open>
  app = Flask(__name__)
  CORS(app)

  @app.route('/status')
  def status():
      return jsonify({'message': 'Backend rodando com sucesso!'})

  if __name__ == '__main__':
      app.run(host='0.0.0.0', port=10000)
  \<close>
  The module's own statements (the view \<open>status\<close>, the three calls that build \<open>app\<close>
  and the guarded \<open>app.run\<close>) are translated line by line. The library calls they make
  are given the behaviour their documentation states for the arguments used here:
  \<^item> \<open>Flask(name)\<close> creates an application whose URL map already holds the static-files
    rule \<open>/static/<path:filename>\<close> (the \<open>static_folder\<close> argument defaults to
    \<open>'static'\<close>);
  \<^item> \<open>app.route(rule)\<close> without \<open>methods\<close> registers the rule for GET; HEAD is added to
    every rule that has GET, and OPTIONS is added and answered automatically;
  \<^item> a rule without converters matches its own path only (a trailing slash is another
    path); no matching rule is 404, a matching rule without the method is 405; the URL
    map reads a path with its leading slashes reduced to one, and answers a path that
    matches a rule only once its repeated slashes are merged with a redirect (308) to
    the merged path;
  \<^item> \<open>jsonify\<close> returns a response of status 200 and mimetype \<open>application/json\<close>;
  \<^item> \<open>CORS(app)\<close> with default options (\<open>origins='*'\<close>, \<open>always_send=True\<close>,
    \<open>send_wildcard=False\<close>) registers an after-request hook for all paths;
  \<^item> \<open>app.run(host, port)\<close> returns at once when the environment holds
    \<open>FLASK_RUN_FROM_CLI=true\<close>; otherwise it hands host and port (\<open>127.0.0.1\<close> and
    5000 when not given; \<open>SERVER_NAME\<close> is not configured here) to werkzeug's
    \<open>run_simple\<close>, which serves on them.
  A request carries its method in upper case and its path without the query string. Of
  a response, the status, the mimetype, the headers named here and the body are kept (of
  a redirect's \<open>Location\<close>, the path); a static file is what the static folder holds
  under a name, with the mimetype guessed for it.
\<close>

subsection \<open>Requests, responses, errors\<close>

record request =
  http_method :: string
  path :: string
  query_string :: string
  req_headers :: "(string \<times> string) list"
  req_body :: string

datatype json = JStr string | JNum int | JObj "(string \<times> json) list"

text \<open>What a view may hand to \<open>jsonify\<close>: Python values, not all of them serializable.\<close>

datatype pyvalue = PStr string | PInt int | PDict "(string \<times> pyvalue) list" | PObject

datatype payload = JsonBody json | FileBody string | HtmlBody string | NoBody

record response =
  status_code :: nat
  mimetype :: string
  headers :: "(string \<times> string) list"
  body :: payload

datatype http_exception =
  NotFound
| MethodNotAllowed "string list"
| RequestRedirect string
| InternalServerError

text \<open>The part of the process environment that a view could read.\<close>

record world =
  static_files :: "string \<Rightarrow> (string \<times> string) option"
  os_environ :: "string \<Rightarrow> string option"
  argv :: "string list"

type_synonym view_args = "(string \<times> string) list"

type_synonym view = "world \<Rightarrow> request \<Rightarrow> view_args \<Rightarrow> http_exception + response"

subsection \<open>The URL map\<close>

text \<open>
  \<open>Fixed s\<close> is a rule string without converters; \<open>Path_under pre arg\<close> is
  \<open>pre<path:arg>\<close>, whose converter takes the non-empty rest of the path when it does
  not start with a slash.
\<close>

datatype url_pattern = Fixed string | Path_under string string

record url_rule =
  rule_pattern :: url_pattern
  methods :: "string list"
  endpoint :: string
  provide_automatic_options :: bool

fun match_pattern :: "url_pattern \<Rightarrow> string \<Rightarrow> view_args option" where
  "match_pattern (Fixed s) p = (if p = s then Some [] else None)"
| "match_pattern (Path_under pre arg) p =
     (if take (length pre) p = pre
      then (case drop (length pre) p of
              [] \<Rightarrow> None
            | c # cs \<Rightarrow> if c = CHR ''/'' then None else Some [(arg, c # cs)])
      else None)"

text \<open>
  The path that the URL map matches is \<open>'/' + path_info.lstrip('/')\<close>, or the empty
  string for an empty path.
\<close>

definition path_part :: "string \<Rightarrow> string" where
  "path_part p = (if p = [] then [] else CHR ''/'' # dropWhile (\<lambda>c. c = CHR ''/'') p)"

text \<open>
  \<open>re.sub("/{2,}?", "/", path)\<close>: from left to right, each pair of slashes becomes one
  slash (the quantifier is lazy, so a run of three becomes two).
\<close>

fun merge_slashes :: "string \<Rightarrow> string" where
  "merge_slashes (a # b # cs) =
     (if a = CHR ''/'' \<and> b = CHR ''/'' then CHR ''/'' # merge_slashes cs
      else a # merge_slashes (b # cs))"
| "merge_slashes cs = cs"

text \<open>
  Matching a path and a method: the first rule that matches both. When there is none,
  the methods of the rules that match the path are what the 405 answer allows.
\<close>

fun find_rule :: "url_rule list \<Rightarrow> string \<Rightarrow> string \<Rightarrow> (url_rule \<times> view_args) option" where
  "find_rule [] m p = None"
| "find_rule (r # rs) m p =
     (case match_pattern (rule_pattern r) p of
        None \<Rightarrow> find_rule rs m p
      | Some args \<Rightarrow> if m \<in> set (methods r) then Some (r, args) else find_rule rs m p)"

fun have_match_for :: "url_rule list \<Rightarrow> string \<Rightarrow> string list" where
  "have_match_for [] p = []"
| "have_match_for (r # rs) p =
     (case match_pattern (rule_pattern r) p of
        None \<Rightarrow> have_match_for rs p
      | Some _ \<Rightarrow> methods r @ have_match_for rs p)"

text \<open>
  The URL map's \<open>match\<close>: the path as it stands; failing that, the path with slashes
  merged, and a match there is a redirect to the merged path; failing both, 405 when
  some rule matched a path without the method, and 404 otherwise.
\<close>

definition url_match ::
  "url_rule list \<Rightarrow> string \<Rightarrow> string \<Rightarrow> http_exception + (url_rule \<times> view_args)"
where
  "url_match rules m p =
     (let p1 = path_part p
      in case find_rule rules m p1 of
           Some ra \<Rightarrow> Inr ra
         | None \<Rightarrow>
             (let p2 = merge_slashes p1
              in case find_rule rules m p2 of
                   Some _ \<Rightarrow> Inl (RequestRedirect p2)
                 | None \<Rightarrow>
                     (let have = remdups (have_match_for rules p1 @ have_match_for rules p2)
                      in if have = [] then Inl NotFound else Inl (MethodNotAllowed have))))"

text \<open>
  For stating properties: the path with every run of slashes merged into one slash.
\<close>

fun collapse_slashes :: "string \<Rightarrow> string" where
  "collapse_slashes (a # b # cs) =
     (if a = CHR ''/'' \<and> b = CHR ''/'' then collapse_slashes (b # cs)
      else a # collapse_slashes (b # cs))"
| "collapse_slashes cs = cs"

subsection \<open>The application object\<close>

record app =
  import_name :: string
  url_map :: "url_rule list"
  view_functions :: "(string \<times> view) list"
  after_request_funcs :: "(request \<Rightarrow> response \<Rightarrow> response) list"

text \<open>
  \<open>add_url_rule\<close>: the methods default to GET; OPTIONS is added, and answered by the
  framework, unless the caller lists it; a rule with GET also takes HEAD.
\<close>

definition rule_methods :: "string list option \<Rightarrow> string list" where
  "rule_methods ms =
     (let given = (case ms of None \<Rightarrow> [''GET''] | Some l \<Rightarrow> l);
          required = (if ''OPTIONS'' \<in> set given then given else given @ [''OPTIONS''])
      in if ''GET'' \<in> set required \<and> ''HEAD'' \<notin> set required
         then required @ [''HEAD''] else required)"

definition automatic_options :: "string list option \<Rightarrow> bool" where
  "automatic_options ms =
     (case ms of None \<Rightarrow> True | Some l \<Rightarrow> ''OPTIONS'' \<notin> set l)"

definition add_url_rule ::
  "url_pattern \<Rightarrow> string \<Rightarrow> view \<Rightarrow> string list option \<Rightarrow> app \<Rightarrow> app"
where
  "add_url_rule pat ep f ms a =
     a\<lparr>url_map := url_map a @
          [\<lparr>rule_pattern = pat, methods = rule_methods ms, endpoint = ep,
            provide_automatic_options = automatic_options ms\<rparr>],
       view_functions := view_functions a @ [(ep, f)]\<rparr>"

text \<open>\<open>@app.route(rule)\<close> on \<open>def f\<close>: the endpoint is the function's name.\<close>

definition route :: "url_pattern \<Rightarrow> string \<Rightarrow> view \<Rightarrow> app \<Rightarrow> app" where
  "route pat fname f a = add_url_rule pat fname f None a"

definition send_static_file :: view where
  "send_static_file w req args =
     (case map_of args ''filename'' of
        None \<Rightarrow> Inl InternalServerError
      | Some fn \<Rightarrow>
          (case static_files w fn of
             None \<Rightarrow> Inl NotFound
           | Some (mt, content) \<Rightarrow>
               Inr \<lparr>status_code = 200, mimetype = mt, headers = [],
                    body = FileBody content\<rparr>))"

definition Flask :: "string \<Rightarrow> app" where
  "Flask name =
     add_url_rule (Path_under ''/static/'' ''filename'') ''static'' send_static_file None
       \<lparr>import_name = name, url_map = [], view_functions = [], after_request_funcs = []\<rparr>"

subsection \<open>jsonify\<close>

fun dumps :: "pyvalue \<Rightarrow> json option"
  and dumps_items :: "(string \<times> pyvalue) list \<Rightarrow> (string \<times> json) list option"
where
  "dumps (PStr s) = Some (JStr s)"
| "dumps (PInt i) = Some (JNum i)"
| "dumps (PDict kvs) = map_option JObj (dumps_items kvs)"
| "dumps PObject = None"
| "dumps_items [] = Some []"
| "dumps_items ((k, v) # kvs) =
     (case dumps v of
        None \<Rightarrow> None
      | Some j \<Rightarrow> map_option (\<lambda>js. (k, j) # js) (dumps_items kvs))"

definition jsonify :: "pyvalue \<Rightarrow> http_exception + response" where
  "jsonify v =
     (case dumps v of
        None \<Rightarrow> Inl InternalServerError
      | Some j \<Rightarrow>
          Inr \<lparr>status_code = 200, mimetype = ''application/json'',
               headers = [], body = JsonBody j\<rparr>)"

subsection \<open>Flask-Cors\<close>

definition ACL_ORIGIN :: string where
  "ACL_ORIGIN = ''Access-Control-Allow-Origin''"

text \<open>
  With the default options the allowed origin is the request's own \<open>Origin\<close> when it
  sends one, and the wildcard otherwise.
\<close>

definition get_cors_origin :: "request \<Rightarrow> string" where
  "get_cors_origin req =
     (case map_of (req_headers req) ''Origin'' of
        None \<Rightarrow> ''*''
      | Some orig \<Rightarrow> if orig = [] then ''*'' else orig)"

definition cors_after_request :: "request \<Rightarrow> response \<Rightarrow> response" where
  "cors_after_request req resp =
     (case map_of (headers resp) ACL_ORIGIN of
        Some _ \<Rightarrow> resp
      | None \<Rightarrow> resp\<lparr>headers := headers resp @ [(ACL_ORIGIN, get_cors_origin req)]\<rparr>)"

definition CORS :: "app \<Rightarrow> app" where
  "CORS a = a\<lparr>after_request_funcs := after_request_funcs a @ [cors_after_request]\<rparr>"

subsection \<open>Handling a request\<close>

fun join_with :: "string \<Rightarrow> string list \<Rightarrow> string" where
  "join_with sep [] = []"
| "join_with sep [x] = x"
| "join_with sep (x # y # ys) = x @ sep @ join_with sep (y # ys)"

definition make_default_options_response :: "string list \<Rightarrow> response" where
  "make_default_options_response ms =
     \<lparr>status_code = 200, mimetype = ''text/html'',
      headers = [(''Allow'', join_with '', '' ms)], body = NoBody\<rparr>"

definition dispatch_request :: "app \<Rightarrow> world \<Rightarrow> request \<Rightarrow> http_exception + response" where
  "dispatch_request a w req =
     (case url_match (url_map a) (http_method req) (path req) of
        Inl e \<Rightarrow> Inl e
      | Inr (r, args) \<Rightarrow>
          if provide_automatic_options r \<and> http_method req = ''OPTIONS''
          then Inr (make_default_options_response (methods r))
          else (case map_of (view_functions a) (endpoint r) of
                  None \<Rightarrow> Inl InternalServerError
                | Some f \<Rightarrow> f w req args))"

fun get_response :: "http_exception \<Rightarrow> response" where
  "get_response NotFound =
     \<lparr>status_code = 404, mimetype = ''text/html'', headers = [], body = HtmlBody ''Not Found''\<rparr>"
| "get_response (MethodNotAllowed ms) =
     \<lparr>status_code = 405, mimetype = ''text/html'',
      headers = [(''Allow'', join_with '', '' ms)], body = HtmlBody ''Method Not Allowed''\<rparr>"
| "get_response (RequestRedirect target) =
     \<lparr>status_code = 308, mimetype = ''text/html'',
      headers = [(''Location'', target)], body = HtmlBody ''Redirecting...''\<rparr>"
| "get_response InternalServerError =
     \<lparr>status_code = 500, mimetype = ''text/html'', headers = [],
      body = HtmlBody ''Internal Server Error''\<rparr>"

definition process_response :: "app \<Rightarrow> request \<Rightarrow> response \<Rightarrow> response" where
  "process_response a req resp = fold (\<lambda>f r. f req r) (rev (after_request_funcs a)) resp"

definition full_dispatch_request :: "app \<Rightarrow> world \<Rightarrow> request \<Rightarrow> response" where
  "full_dispatch_request a w req =
     process_response a req
       (case dispatch_request a w req of Inl e \<Rightarrow> get_response e | Inr resp \<Rightarrow> resp)"

text \<open>The answer to a HEAD request goes out without its body.\<close>

definition wsgi_app :: "app \<Rightarrow> world \<Rightarrow> request \<Rightarrow> response" where
  "wsgi_app a w req =
     (let resp = full_dispatch_request a w req
      in if http_method req = ''HEAD'' then resp\<lparr>body := NoBody\<rparr> else resp)"

subsection \<open>The module\<close>

definition status :: view where
  "status w req args = jsonify (PDict [(''message'', PStr ''Backend rodando com sucesso!'')])"

text \<open>
  \<open>app.run\<close>: nothing under \<open>FLASK_RUN_FROM_CLI=true\<close>; otherwise the call of
  \<open>run_simple\<close> with the host and the port, each given or defaulted.
\<close>

datatype effect = Run_simple string nat

definition run :: "app \<Rightarrow> world \<Rightarrow> string option \<Rightarrow> nat option \<Rightarrow> effect list" where
  "run a w host port =
     (if os_environ w ''FLASK_RUN_FROM_CLI'' = Some ''true'' then []
      else [Run_simple
              (case host of
                 None \<Rightarrow> ''127.0.0.1''
               | Some h \<Rightarrow> if h = [] then ''127.0.0.1'' else h)
              (case port of None \<Rightarrow> 5000 | Some p \<Rightarrow> p)])"

text \<open>
  Running the module body: the three statements that build \<open>app\<close>, then the guarded
  \<open>app.run\<close>. The effects are the calls of \<open>run_simple\<close>, each with its host and port.
\<close>

definition module_app :: "string \<Rightarrow> app" where
  "module_app name = route (Fixed ''/status'') ''status'' status (CORS (Flask name))"

definition module_exec :: "string \<Rightarrow> world \<Rightarrow> app \<times> effect list" where
  "module_exec name w =
     (let a = module_app name
      in (a, if name = ''__main__'' then run a w (Some ''0.0.0.0'') (Some 10000) else []))"

subsection \<open>Named values\<close>

definition empty_world :: world where
  "empty_world = \<lparr>static_files = (\<lambda>_. None), os_environ = (\<lambda>_. None), argv = []\<rparr>"

definition cli_world :: world where
  "cli_world =
     \<lparr>static_files = (\<lambda>_. None),
      os_environ = (\<lambda>k. if k = ''FLASK_RUN_FROM_CLI'' then Some ''true'' else None),
      argv = []\<rparr>"

definition mk_request :: "string \<Rightarrow> string \<Rightarrow> (string \<times> string) list \<Rightarrow> request" where
  "mk_request m p hs =
     \<lparr>http_method = m, path = p, query_string = [], req_headers = hs, req_body = []\<rparr>"

definition status_rule :: url_rule where
  "status_rule =
     \<lparr>rule_pattern = Fixed ''/status'', methods = [''GET'', ''OPTIONS'', ''HEAD''],
      endpoint = ''status'', provide_automatic_options = True\<rparr>"

definition static_rule :: url_rule where
  "static_rule =
     \<lparr>rule_pattern = Path_under ''/static/'' ''filename'',
      methods = [''GET'', ''OPTIONS'', ''HEAD''], endpoint = ''static'',
      provide_automatic_options = True\<rparr>"

definition status_payload :: response where
  "status_payload =
     \<lparr>status_code = 200, mimetype = ''application/json'', headers = [],
      body = JsonBody (JObj [(''message'', JStr ''Backend rodando com sucesso!'')])\<rparr>"

section \<open>Properties\<close>

subsection \<open>Shared facts\<close>

lemma Flask_unfold:
  "Flask n =
     \<lparr>import_name = n, url_map = [static_rule],
      view_functions = [(''static'', send_static_file)], after_request_funcs = []\<rparr>"
  by (simp add: Flask_def add_url_rule_def rule_methods_def automatic_options_def static_rule_def)

lemma module_app_unfold:
  "module_app n =
     \<lparr>import_name = n, url_map = [static_rule, status_rule],
      view_functions = [(''static'', send_static_file), (''status'', status)],
      after_request_funcs = [cors_after_request]\<rparr>"
  by (simp add: module_app_def route_def CORS_def Flask_unfold add_url_rule_def
      rule_methods_def automatic_options_def status_rule_def)

lemma status_value: "status w req args = Inr status_payload"
  by (simp add: status_def jsonify_def status_payload_def)

lemma cors_keeps:
  "status_code (cors_after_request req resp) = status_code resp"
  "body (cors_after_request req resp) = body resp"
  "mimetype (cors_after_request req resp) = mimetype resp"
  by (simp_all add: cors_after_request_def split: option.split)

lemma cors_adds:
  "map_of (headers resp) ACL_ORIGIN = None \<Longrightarrow>
   map_of (headers (cors_after_request req resp)) ACL_ORIGIN = Some (get_cors_origin req)"
  by (simp add: cors_after_request_def map_add_def)

lemma full_dispatch_module:
  "full_dispatch_request (module_app n) w req =
     cors_after_request req
       (case dispatch_request (module_app n) w req of
          Inl e \<Rightarrow> get_response e | Inr resp \<Rightarrow> resp)"
proof -
  have "after_request_funcs (module_app n) = [cors_after_request]"
    by (simp add: module_app_unfold)
  then show ?thesis
    by (simp add: full_dispatch_request_def process_response_def)
qed

lemma wsgi_keeps:
  "status_code (wsgi_app a w req) = status_code (full_dispatch_request a w req)"
  "mimetype (wsgi_app a w req) = mimetype (full_dispatch_request a w req)"
  "headers (wsgi_app a w req) = headers (full_dispatch_request a w req)"
  by (simp_all add: wsgi_app_def Let_def)

lemma wsgi_body:
  "http_method req \<noteq> ''HEAD'' \<Longrightarrow> body (wsgi_app a w req) = body (full_dispatch_request a w req)"
  by (simp add: wsgi_app_def)

lemma no_match_find_rule:
  "\<forall>r \<in> set rs. match_pattern (rule_pattern r) p = None \<Longrightarrow>
   find_rule rs m p = None \<and> have_match_for rs p = []"
  by (induction rs) simp_all

lemma url_match_status_path:
  "url_match (url_map (module_app n)) m ''/status'' =
     (if m \<in> set [''GET'', ''OPTIONS'', ''HEAD''] then Inr (status_rule, [])
      else Inl (MethodNotAllowed [''GET'', ''OPTIONS'', ''HEAD'']))"
  by (simp add: url_match_def path_part_def module_app_unfold static_rule_def status_rule_def)

lemma url_match_no_rule:
  assumes "\<forall>r \<in> set rs. match_pattern (rule_pattern r) (path_part p) = None"
    and "\<forall>r \<in> set rs. match_pattern (rule_pattern r) (merge_slashes (path_part p)) = None"
  shows "url_match rs m p = Inl NotFound"
  using no_match_find_rule [OF assms(1)] no_match_find_rule [OF assms(2)]
  by (simp add: url_match_def)

lemma dispatch_get_status:
  "http_method req = ''GET'' \<Longrightarrow> path req = ''/status'' \<Longrightarrow>
   dispatch_request (module_app n) w req = Inr status_payload"
  by (simp add: dispatch_request_def url_match_status_path)
     (simp add: module_app_unfold status_rule_def status_value)

lemma dispatch_head_status:
  "http_method req = ''HEAD'' \<Longrightarrow> path req = ''/status'' \<Longrightarrow>
   dispatch_request (module_app n) w req = Inr status_payload"
  by (simp add: dispatch_request_def url_match_status_path)
     (simp add: module_app_unfold status_rule_def status_value)

lemma dispatch_other_status:
  "http_method req \<notin> set [''GET'', ''OPTIONS'', ''HEAD''] \<Longrightarrow> path req = ''/status'' \<Longrightarrow>
   dispatch_request (module_app n) w req = Inl (MethodNotAllowed [''GET'', ''OPTIONS'', ''HEAD''])"
  by (simp add: dispatch_request_def url_match_status_path)

lemma dispatch_options_status:
  "http_method req = ''OPTIONS'' \<Longrightarrow> path req = ''/status'' \<Longrightarrow>
   dispatch_request (module_app n) w req =
     Inr (make_default_options_response [''GET'', ''OPTIONS'', ''HEAD''])"
  by (simp add: dispatch_request_def url_match_status_path) (simp add: status_rule_def)

lemma status_options_ok:
  "http_method req = ''OPTIONS'' \<Longrightarrow> path req = ''/status'' \<Longrightarrow>
   status_code (wsgi_app (module_app n) w req) = 200"
  by (simp add: wsgi_keeps full_dispatch_module cors_keeps dispatch_options_status
      make_default_options_response_def)

lemma no_rule_iff:
  "(\<forall>r \<in> set (url_map (module_app n)). match_pattern (rule_pattern r) p = None) \<longleftrightarrow>
   p \<noteq> ''/status'' \<and> match_pattern (Path_under ''/static/'' ''filename'') p = None"
  by (auto simp: module_app_unfold static_rule_def status_rule_def)

lemma dispatch_no_rule:
  assumes "\<forall>r \<in> set (url_map (module_app n)).
             match_pattern (rule_pattern r) (path_part (path req)) = None"
    and "\<forall>r \<in> set (url_map (module_app n)).
           match_pattern (rule_pattern r) (merge_slashes (path_part (path req))) = None"
  shows "dispatch_request (module_app n) w req = Inl NotFound"
  by (simp add: dispatch_request_def url_match_no_rule [OF assms])

lemma dispatch_trailing_slash:
  "path req = ''/status/'' \<Longrightarrow> dispatch_request (module_app n) w req = Inl NotFound"
  by (simp add: dispatch_request_def url_match_def path_part_def module_app_unfold
      static_rule_def status_rule_def)

lemma dispatch_merged_static:
  "http_method req = ''GET'' \<Longrightarrow> path req = ''/static//x.txt'' \<Longrightarrow>
   dispatch_request (module_app n) w req = Inl (RequestRedirect ''/static/x.txt'')"
  by (simp add: dispatch_request_def url_match_def path_part_def module_app_unfold
      static_rule_def status_rule_def)

subsection \<open>Merging slashes\<close>

lemma collapse_slashes_Cons:
  "collapse_slashes (c # q) =
     (if c = CHR ''/'' \<and> (\<exists>t. q = CHR ''/'' # t) then collapse_slashes q
      else c # collapse_slashes q)"
  by (cases q) auto

lemma collapse_slashes_head:
  "(\<exists>t. collapse_slashes q = CHR ''/'' # t) \<longleftrightarrow> (\<exists>t. q = CHR ''/'' # t)"
  by (induction q rule: collapse_slashes.induct) auto

lemma collapse_slashes_cong:
  "collapse_slashes q = collapse_slashes q' \<Longrightarrow>
   collapse_slashes (c # q) = collapse_slashes (c # q')"
  using collapse_slashes_head [of q] collapse_slashes_head [of q']
  by (simp add: collapse_slashes_Cons)

lemma collapse_merge_slashes: "collapse_slashes (merge_slashes p) = collapse_slashes p"
proof (induction p rule: merge_slashes.induct)
  case (1 a b cs)
  show ?case
  proof (cases "a = CHR ''/'' \<and> b = CHR ''/''")
    case True
    have "collapse_slashes (merge_slashes cs) = collapse_slashes cs"
      using True by (rule "1.IH"(1))
    then have "collapse_slashes (CHR ''/'' # merge_slashes cs) = collapse_slashes (CHR ''/'' # cs)"
      by (rule collapse_slashes_cong)
    moreover have "merge_slashes (a # b # cs) = CHR ''/'' # merge_slashes cs"
      using True by simp
    moreover have "collapse_slashes (a # b # cs) = collapse_slashes (CHR ''/'' # cs)"
      using True by simp
    ultimately show ?thesis by simp
  next
    case False
    have "collapse_slashes (merge_slashes (b # cs)) = collapse_slashes (b # cs)"
      using False by (rule "1.IH"(2))
    then have "collapse_slashes (a # merge_slashes (b # cs)) = collapse_slashes (a # b # cs)"
      by (rule collapse_slashes_cong)
    moreover have "merge_slashes (a # b # cs) = a # merge_slashes (b # cs)"
      using False by auto
    ultimately show ?thesis by simp
  qed
qed simp_all

lemma collapse_keeps_first:
  "c \<noteq> CHR ''/'' \<Longrightarrow> \<exists>t. collapse_slashes (c # cs) = c # t"
  by (simp add: collapse_slashes_Cons)

lemma status_match_collapse:
  "match_pattern (rule_pattern status_rule) q \<noteq> None \<Longrightarrow>
   match_pattern (rule_pattern status_rule) (collapse_slashes q) \<noteq> None"
  by (auto simp: status_rule_def split: if_splits)

lemma path_under_match_iff:
  "match_pattern (Path_under pre arg) q \<noteq> None \<longleftrightarrow>
   (\<exists>c cs. q = pre @ c # cs \<and> c \<noteq> CHR ''/'')"
proof
  assume m: "match_pattern (Path_under pre arg) q \<noteq> None"
  then have t: "take (length pre) q = pre"
    by (simp split: if_splits)
  from m obtain c cs where d: "drop (length pre) q = c # cs" and c: "c \<noteq> CHR ''/''"
    by (auto split: if_splits list.splits)
  have "q = take (length pre) q @ drop (length pre) q"
    by simp
  with t d have "q = pre @ c # cs"
    by simp
  with c show "\<exists>c cs. q = pre @ c # cs \<and> c \<noteq> CHR ''/''"
    by blast
next
  assume "\<exists>c cs. q = pre @ c # cs \<and> c \<noteq> CHR ''/''"
  then show "match_pattern (Path_under pre arg) q \<noteq> None"
    by auto
qed

lemma static_match_collapse:
  assumes "match_pattern (rule_pattern static_rule) q \<noteq> None"
  shows "match_pattern (rule_pattern static_rule) (collapse_slashes q) \<noteq> None"
proof -
  from assms obtain c cs where q: "q = ''/static/'' @ c # cs" and c: "c \<noteq> CHR ''/''"
    unfolding static_rule_def using path_under_match_iff [of "''/static/''" "''filename''" q]
    by auto
  from c obtain t where t: "collapse_slashes (c # cs) = c # t"
    using collapse_keeps_first by blast
  have "collapse_slashes q = ''/static/'' @ collapse_slashes (c # cs)"
    unfolding q using c by (simp add: collapse_slashes_Cons)
  with t have "collapse_slashes q = ''/static/'' @ c # t"
    by simp
  with c have "match_pattern (Path_under ''/static/'' ''filename'') (collapse_slashes q) \<noteq> None"
    unfolding path_under_match_iff by blast
  then show ?thesis
    by (simp add: static_rule_def)
qed

lemma no_rule_merged:
  assumes "\<forall>r \<in> set (url_map (module_app n)).
             match_pattern (rule_pattern r) (collapse_slashes q) = None"
  shows "\<forall>r \<in> set (url_map (module_app n)).
           match_pattern (rule_pattern r) (merge_slashes q) = None"
proof -
  have c: "collapse_slashes (merge_slashes q) = collapse_slashes q"
    by (rule collapse_merge_slashes)
  from assms have a1: "match_pattern (rule_pattern static_rule) (collapse_slashes q) = None"
    and a2: "match_pattern (rule_pattern status_rule) (collapse_slashes q) = None"
    by (simp_all add: module_app_unfold)
  have "match_pattern (rule_pattern static_rule) (merge_slashes q) = None"
  proof (rule ccontr)
    assume "match_pattern (rule_pattern static_rule) (merge_slashes q) \<noteq> None"
    then have "match_pattern (rule_pattern static_rule) (collapse_slashes (merge_slashes q)) \<noteq> None"
      by (rule static_match_collapse)
    with a1 c show False by simp
  qed
  moreover have "match_pattern (rule_pattern status_rule) (merge_slashes q) = None"
  proof (rule ccontr)
    assume "match_pattern (rule_pattern status_rule) (merge_slashes q) \<noteq> None"
    then have "match_pattern (rule_pattern status_rule) (collapse_slashes (merge_slashes q)) \<noteq> None"
      by (rule status_match_collapse)
    with a2 c show False by simp
  qed
  ultimately show ?thesis
    by (simp add: module_app_unfold)
qed

subsection \<open>Responses before the CORS hook\<close>

lemma get_response_no_acl: "map_of (headers (get_response e)) ACL_ORIGIN = None"
  by (cases e) (simp_all add: ACL_ORIGIN_def)

lemma send_static_file_no_acl:
  "send_static_file w req args = Inr resp \<Longrightarrow> map_of (headers resp) ACL_ORIGIN = None"
  by (auto simp: send_static_file_def split: option.splits)

lemma view_no_acl:
  assumes "map_of (view_functions (module_app n)) ep = Some f" and "f w req args = Inr resp"
  shows "map_of (headers resp) ACL_ORIGIN = None"
proof -
  from assms(1) have "f = send_static_file \<or> f = status"
    by (auto simp: module_app_unfold split: if_splits)
  then show ?thesis
  proof
    assume "f = send_static_file"
    with assms(2) show ?thesis by (simp add: send_static_file_no_acl)
  next
    assume "f = status"
    with assms(2) show ?thesis by (auto simp: status_value status_payload_def)
  qed
qed

lemma dispatch_no_acl:
  assumes that: "a = module_app n"
  shows "map_of (headers (case dispatch_request a w req of
                            Inl e \<Rightarrow> get_response e | Inr resp \<Rightarrow> resp)) ACL_ORIGIN = None"
proof (cases "dispatch_request a w req")
  case (Inl e)
  then show ?thesis by (simp add: get_response_no_acl)
next
  case (Inr resp)
  then have "map_of (headers resp) ACL_ORIGIN = None"
    unfolding dispatch_request_def that
    by (auto simp: make_default_options_response_def ACL_ORIGIN_def
        split: sum.splits prod.splits if_splits option.splits dest: view_no_acl)
  with Inr show ?thesis by simp
qed

subsection \<open>The status route\<close>

text \<open>
  C1. Every GET request to \<open>/status\<close> is answered with HTTP status 200, the JSON body
  \<open>{"message": "Backend rodando com sucesso!"}\<close> and the JSON content type.
\<close>

theorem status_get_ok:
  assumes "http_method req = ''GET''" and "path req = ''/status''"
  shows "status_code (wsgi_app (module_app n) w req) = 200 \<and>
         body (wsgi_app (module_app n) w req) =
           JsonBody (JObj [(''message'', JStr ''Backend rodando com sucesso!'')]) \<and>
         mimetype (wsgi_app (module_app n) w req) = ''application/json''"
proof -
  have "http_method req \<noteq> ''HEAD''"
    using assms(1) by simp
  then have "body (wsgi_app (module_app n) w req) = body (full_dispatch_request (module_app n) w req)"
    by (rule wsgi_body)
  then show ?thesis
    by (simp add: wsgi_keeps full_dispatch_module dispatch_get_status [OF assms] cors_keeps
        status_payload_def)
qed

theorem status_get_ok_witness:
  "http_method (mk_request ''GET'' ''/status'' []) = ''GET'' \<and>
   path (mk_request ''GET'' ''/status'' []) = ''/status'' \<and>
   status_code (wsgi_app (module_app ''__main__'') empty_world (mk_request ''GET'' ''/status'' []))
     = 200 \<and>
   body (wsgi_app (module_app ''__main__'') empty_world (mk_request ''GET'' ''/status'' [])) =
     JsonBody (JObj [(''message'', JStr ''Backend rodando com sucesso!'')]) \<and>
   mimetype (wsgi_app (module_app ''__main__'') empty_world (mk_request ''GET'' ''/status'' []))
     = ''application/json''"
  using status_get_ok [of "mk_request ''GET'' ''/status'' []" "''__main__''" empty_world]
  by (simp add: mk_request_def)

text \<open>
  C2. Any two GET requests to \<open>/status\<close>, whatever their query strings, headers and
  bodies, get the same response from the status handler: the view ignores the request
  (and the process environment), so what the dispatcher hands back is the same value on
  every call, and with it the status, mimetype and body that leave the application.
\<close>

theorem status_output_independent_of_request:
  assumes "http_method r1 = ''GET''" and "path r1 = ''/status''"
    and "http_method r2 = ''GET''" and "path r2 = ''/status''"
  shows "status w1 r1 args1 = status w2 r2 args2 \<and>
         dispatch_request (module_app n) w1 r1 = dispatch_request (module_app n) w2 r2 \<and>
         status_code (wsgi_app (module_app n) w1 r1) = status_code (wsgi_app (module_app n) w2 r2) \<and>
         mimetype (wsgi_app (module_app n) w1 r1) = mimetype (wsgi_app (module_app n) w2 r2) \<and>
         body (wsgi_app (module_app n) w1 r1) = body (wsgi_app (module_app n) w2 r2)"
proof -
  have d: "dispatch_request (module_app n) w1 r1 = dispatch_request (module_app n) w2 r2"
    by (simp add: dispatch_get_status assms)
  have "http_method r1 \<noteq> ''HEAD''" and "http_method r2 \<noteq> ''HEAD''"
    using assms by simp_all
  then have b: "body (wsgi_app (module_app n) w1 r1) = body (full_dispatch_request (module_app n) w1 r1)"
    "body (wsgi_app (module_app n) w2 r2) = body (full_dispatch_request (module_app n) w2 r2)"
    by (simp_all add: wsgi_body)
  show ?thesis
    by (simp add: status_value d b wsgi_keeps full_dispatch_module cors_keeps)
qed

theorem status_output_independent_of_request_witness:
  "http_method (mk_request ''GET'' ''/status'' []) = ''GET'' \<and>
   path (mk_request ''GET'' ''/status'' []) = ''/status'' \<and>
   http_method \<lparr>http_method = ''GET'', path = ''/status'', query_string = ''a=1'',
           req_headers = [(''Origin'', ''http://x.test'')], req_body = ''zzz''\<rparr> = ''GET'' \<and>
   path \<lparr>http_method = ''GET'', path = ''/status'', query_string = ''a=1'',
         req_headers = [(''Origin'', ''http://x.test'')], req_body = ''zzz''\<rparr> = ''/status'' \<and>
   dispatch_request (module_app ''__main__'') empty_world (mk_request ''GET'' ''/status'' []) =
   dispatch_request (module_app ''__main__'') empty_world
     \<lparr>http_method = ''GET'', path = ''/status'', query_string = ''a=1'',
      req_headers = [(''Origin'', ''http://x.test'')], req_body = ''zzz''\<rparr>"
  using status_output_independent_of_request
    [of "mk_request ''GET'' ''/status'' []"
        "\<lparr>http_method = ''GET'', path = ''/status'', query_string = ''a=1'',
          req_headers = [(''Origin'', ''http://x.test'')], req_body = ''zzz''\<rparr>"
        empty_world "[]" empty_world "[]" "''__main__''"]
  by (simp add: mk_request_def)

text \<open>
  C8. The status handler cannot fail: for every request (and every state of the process
  environment) it returns a response, of status 200, and never an error; the only error
  branch on its way, that of \<open>jsonify\<close> on a value that is not serializable, is not
  taken for the constant dictionary it is given.
\<close>

theorem status_cannot_fail:
  "(\<exists>resp. status w req args = Inr resp \<and> status_code resp = 200) \<and>
   dumps (PDict [(''message'', PStr ''Backend rodando com sucesso!'')]) \<noteq> None"
  by (simp add: status_value status_payload_def)

subsection \<open>Cross-origin header\<close>

text \<open>
  C3. Every response of the application, whatever the path and the method (the 404 and
  405 answers included), carries the header \<open>Access-Control-Allow-Origin\<close>; its value is
  the wildcard, or the origin that the request itself names, so no origin is shut out.
\<close>

theorem cors_header_on_every_response:
  "map_of (headers (wsgi_app (module_app n) w req)) ACL_ORIGIN = Some (get_cors_origin req) \<and>
   (get_cors_origin req = ''*'' \<or>
    map_of (req_headers req) ''Origin'' = Some (get_cors_origin req))"
proof -
  have "map_of (headers (wsgi_app (module_app n) w req)) ACL_ORIGIN = Some (get_cors_origin req)"
    by (simp add: wsgi_keeps full_dispatch_module cors_adds dispatch_no_acl)
  moreover have "get_cors_origin req = ''*'' \<or>
    map_of (req_headers req) ''Origin'' = Some (get_cors_origin req)"
    by (simp add: get_cors_origin_def split: option.split)
  ultimately show ?thesis by simp
qed

subsection \<open>Other methods and other paths\<close>

text \<open>
  C4, as stated: every request to \<open>/status\<close> whose method is not GET gets a status other
  than 200. This fails for HEAD (and for OPTIONS): a route registered without \<open>methods\<close>
  answers HEAD through the same view, and OPTIONS automatically, both with 200.
\<close>

theorem status_head_counterexample:
  "http_method (mk_request ''HEAD'' ''/status'' []) \<noteq> ''GET'' \<and>
   path (mk_request ''HEAD'' ''/status'' []) = ''/status'' \<and>
   status_code (wsgi_app (module_app ''__main__'') empty_world (mk_request ''HEAD'' ''/status'' []))
     = 200"
  by (simp add: wsgi_keeps full_dispatch_module cors_keeps dispatch_head_status mk_request_def
      status_payload_def)

text \<open>
  C4, amended: every request to \<open>/status\<close> whose method is none of GET, HEAD and OPTIONS
  is answered with status 405 (so not 200), and the view is not run.
\<close>

theorem status_other_method_405:
  assumes "http_method req \<notin> set [''GET'', ''OPTIONS'', ''HEAD'']" and "path req = ''/status''"
  shows "status_code (wsgi_app (module_app n) w req) = 405 \<and>
         status_code (wsgi_app (module_app n) w req) \<noteq> 200"
  by (simp add: wsgi_keeps full_dispatch_module cors_keeps dispatch_other_status [OF assms])

theorem status_other_method_405_witness:
  "http_method (mk_request ''POST'' ''/status'' []) \<notin> set [''GET'', ''OPTIONS'', ''HEAD''] \<and>
   path (mk_request ''POST'' ''/status'' []) = ''/status'' \<and>
   status_code (wsgi_app (module_app ''__main__'') empty_world (mk_request ''POST'' ''/status'' []))
     = 405"
  using status_other_method_405 [of "mk_request ''POST'' ''/status'' []" "''__main__''" empty_world]
  by (simp add: mk_request_def)

text \<open>
  C5, as stated: every request to a path for which no route is defined is answered with
  status 404. This fails for a path that matches no rule as it stands but matches one
  once its repeated slashes are merged: \<open>/static//x.txt\<close> matches neither rule, and the
  URL map answers it with a redirect (308) to \<open>/static/x.txt\<close>.
\<close>

theorem merged_path_redirect_counterexample:
  "url_map (module_app ''__main__'') = [static_rule, status_rule] \<and>
   match_pattern (rule_pattern static_rule) (path (mk_request ''GET'' ''/static//x.txt'' []))
     = None \<and>
   match_pattern (rule_pattern status_rule) (path (mk_request ''GET'' ''/static//x.txt'' []))
     = None \<and>
   status_code
     (wsgi_app (module_app ''__main__'') empty_world (mk_request ''GET'' ''/static//x.txt'' []))
     = 308"
proof -
  have "dispatch_request (module_app ''__main__'') empty_world
          (mk_request ''GET'' ''/static//x.txt'' []) = Inl (RequestRedirect ''/static/x.txt'')"
    by (rule dispatch_merged_static) (simp_all add: mk_request_def)
  then have "status_code
     (wsgi_app (module_app ''__main__'') empty_world (mk_request ''GET'' ''/static//x.txt'' []))
     = 308"
    by (simp add: wsgi_keeps full_dispatch_module cors_keeps)
  then show ?thesis
    by (simp add: module_app_unfold static_rule_def status_rule_def mk_request_def)
qed

text \<open>
  C5, amended: every request to a path that no rule of the URL map matches, neither as
  the URL map reads it (leading slashes reduced to one) nor with every run of slashes
  merged into one, is answered with status 404, whatever its method.
\<close>

theorem unmatched_path_404:
  assumes "\<forall>r \<in> set (url_map (module_app n)).
             match_pattern (rule_pattern r) (path_part (path req)) = None"
    and "\<forall>r \<in> set (url_map (module_app n)).
           match_pattern (rule_pattern r) (collapse_slashes (path_part (path req))) = None"
  shows "status_code (wsgi_app (module_app n) w req) = 404"
proof -
  have "\<forall>r \<in> set (url_map (module_app n)).
          match_pattern (rule_pattern r) (merge_slashes (path_part (path req))) = None"
    using assms(2) by (rule no_rule_merged)
  with assms(1) have "dispatch_request (module_app n) w req = Inl NotFound"
    by (rule dispatch_no_rule)
  then show ?thesis
    by (simp add: wsgi_keeps full_dispatch_module cors_keeps)
qed

theorem unmatched_path_404_witness:
  "url_map (module_app ''__main__'') = [static_rule, status_rule] \<and>
   path_part (path (mk_request ''POST'' ''//nothing//here'' [])) = ''/nothing//here'' \<and>
   collapse_slashes ''/nothing//here'' = ''/nothing/here'' \<and>
   match_pattern (rule_pattern static_rule) ''/nothing//here'' = None \<and>
   match_pattern (rule_pattern status_rule) ''/nothing//here'' = None \<and>
   match_pattern (rule_pattern static_rule) ''/nothing/here'' = None \<and>
   match_pattern (rule_pattern status_rule) ''/nothing/here'' = None \<and>
   status_code
     (wsgi_app (module_app ''__main__'') empty_world (mk_request ''POST'' ''//nothing//here'' []))
     = 404"
proof -
  have p: "path_part (path (mk_request ''POST'' ''//nothing//here'' [])) = ''/nothing//here''"
    by (simp add: mk_request_def path_part_def)
  have c: "collapse_slashes ''/nothing//here'' = ''/nothing/here''"
    by simp
  have h1: "\<forall>r \<in> set (url_map (module_app ''__main__'')).
      match_pattern (rule_pattern r) (path_part (path (mk_request ''POST'' ''//nothing//here'' [])))
        = None"
    unfolding p by (simp add: module_app_unfold static_rule_def status_rule_def)
  have h2: "\<forall>r \<in> set (url_map (module_app ''__main__'')).
      match_pattern (rule_pattern r)
        (collapse_slashes (path_part (path (mk_request ''POST'' ''//nothing//here'' [])))) = None"
    unfolding p c by (simp add: module_app_unfold static_rule_def status_rule_def)
  from unmatched_path_404 [OF h1 h2] p c show ?thesis
    by (simp add: module_app_unfold static_rule_def status_rule_def)
qed

text \<open>
  C10. A GET request to \<open>/status/\<close>, with the trailing slash, is not served by the status
  handler: the rule is \<open>/status\<close>, no rule matches the longer path, and the answer is the
  framework's 404 and not the 200 payload.
\<close>

theorem trailing_slash_not_found:
  assumes "http_method req = ''GET''" and "path req = ''/status/''"
  shows "dispatch_request (module_app n) w req = Inl NotFound \<and>
         status_code (wsgi_app (module_app n) w req) = 404 \<and>
         body (wsgi_app (module_app n) w req) \<noteq>
           JsonBody (JObj [(''message'', JStr ''Backend rodando com sucesso!'')])"
proof -
  have "http_method req \<noteq> ''HEAD''"
    using assms(1) by simp
  then have "body (wsgi_app (module_app n) w req) = body (full_dispatch_request (module_app n) w req)"
    by (rule wsgi_body)
  then show ?thesis
    by (simp add: wsgi_keeps full_dispatch_module cors_keeps dispatch_trailing_slash [OF assms(2)])
qed

theorem trailing_slash_not_found_witness:
  "http_method (mk_request ''GET'' ''/status/'' []) = ''GET'' \<and>
   path (mk_request ''GET'' ''/status/'' []) = ''/status/'' \<and>
   status_code (wsgi_app (module_app ''__main__'') empty_world (mk_request ''GET'' ''/status/'' []))
     = 404"
  using trailing_slash_not_found [of "mk_request ''GET'' ''/status/'' []" "''__main__''" empty_world]
  by (simp add: mk_request_def)

subsection \<open>The routing table\<close>

text \<open>
  C6, as stated: the application's routing table holds exactly one route, GET
  \<open>/status\<close>. The table of the application that the module builds has two rules: the
  constructor has put the static-files rule there before the module registers its own.
\<close>

theorem one_route_counterexample:
  "length (url_map (fst (module_exec ''__main__'' empty_world))) = 2 \<and>
   url_map (fst (module_exec ''__main__'' empty_world)) \<noteq> [status_rule]"
  by (simp add: module_exec_def Let_def module_app_unfold)

text \<open>
  C6, amended: the module registers exactly one route, \<open>/status\<close>, for GET (with HEAD
  and OPTIONS, which the framework adds), served by \<open>status\<close>; the routing table holds
  it after the one rule that the constructor installs, the static-files rule
  \<open>/static/<path:filename>\<close>, and nothing else.
\<close>

theorem module_registers_one_route:
  "url_map (module_app n) = url_map (Flask n) @ [status_rule] \<and>
   url_map (Flask n) = [static_rule] \<and>
   rule_pattern status_rule = Fixed ''/status'' \<and>
   methods status_rule = rule_methods None \<and>
   ''GET'' \<in> set (methods status_rule) \<and>
   map_of (view_functions (module_app n)) (endpoint status_rule) = Some status"
  by (simp add: module_app_unfold Flask_unfold status_rule_def rule_methods_def automatic_options_def)

subsection \<open>Starting the server\<close>

text \<open>
  C7, as stated: run as the main program, the module has the server bound to all
  interfaces on port 10000. This fails when the environment holds
  \<open>FLASK_RUN_FROM_CLI=true\<close>: \<open>app.run\<close> then returns at once and no server is
  started.
\<close>

theorem main_under_cli_counterexample:
  "os_environ cli_world ''FLASK_RUN_FROM_CLI'' = Some ''true'' \<and>
   snd (module_exec ''__main__'' cli_world) = []"
  by (simp add: module_exec_def Let_def run_def cli_world_def)

text \<open>
  C7, amended: run as the main program in an environment that does not hold
  \<open>FLASK_RUN_FROM_CLI=true\<close>, the module starts the server once, on host \<open>0.0.0.0\<close> (all
  interfaces) and port 10000; and whatever the module's name, the environment and the
  command line, no server is started on any other host or port: both are the constants
  of the source, and the defaults of \<open>app.run\<close> (\<open>127.0.0.1\<close>, 5000) are never used.
\<close>

theorem main_runs_on_fixed_port:
  assumes "os_environ w ''FLASK_RUN_FROM_CLI'' \<noteq> Some ''true''"
  shows "snd (module_exec ''__main__'' w) = [Run_simple ''0.0.0.0'' 10000] \<and>
         set (snd (module_exec name w')) \<subseteq> {Run_simple ''0.0.0.0'' 10000}"
  using assms by (auto simp: module_exec_def Let_def run_def)

theorem main_runs_on_fixed_port_witness:
  "os_environ empty_world ''FLASK_RUN_FROM_CLI'' \<noteq> Some ''true'' \<and>
   snd (module_exec ''__main__'' empty_world) = [Run_simple ''0.0.0.0'' 10000] \<and>
   set (snd (module_exec ''__main__'' cli_world)) \<subseteq> {Run_simple ''0.0.0.0'' 10000}"
proof -
  have h: "os_environ empty_world ''FLASK_RUN_FROM_CLI'' \<noteq> Some ''true''"
    by (simp add: empty_world_def)
  from main_runs_on_fixed_port [OF h, of "''__main__''" cli_world] h show ?thesis
    by simp
qed

text \<open>
  C9. Importing the module (its name is then not \<open>__main__\<close>) starts no server: the
  effects are empty, and all that has happened is the construction of the application,
  the CORS hook and the registration of the route. A server is started only under the
  name \<open>__main__\<close>.
\<close>

theorem import_starts_no_server:
  "(name \<noteq> ''__main__'' \<longrightarrow> snd (module_exec name w) = []) \<and>
   (snd (module_exec name w) \<noteq> [] \<longrightarrow> name = ''__main__'') \<and>
   fst (module_exec name w) = route (Fixed ''/status'') ''status'' status (CORS (Flask name))"
  by (simp add: module_exec_def Let_def module_app_def run_def)

theorem import_starts_no_server_witness:
  "''app'' \<noteq> ''__main__'' \<and> snd (module_exec ''app'' empty_world) = [] \<and>
   snd (module_exec ''__main__'' empty_world) \<noteq> [] \<and>
   fst (module_exec ''app'' empty_world) =
     route (Fixed ''/status'') ''status'' status (CORS (Flask ''app''))"
  using import_starts_no_server [of "''app''" empty_world]
    import_starts_no_server [of "''__main__''" empty_world]
  by (simp add: module_exec_def Let_def run_def empty_world_def)

end
